theory Spec2Isabelle
  imports Complex_Main
begin

section \<open>JavaScript values\<close>

text \<open>
  Request bodies and provider payloads are JSON. A property that is absent reads as
  \<open>undefined\<close>. JavaScript numbers are taken as exact rationals: sums and products are
  not rounded as those of doubles are. A string is a list of characters, one for each
  code unit, so that \<open>length\<close> is the \<^verbatim>\<open>.length\<close> of the source. A request body
  is the object that the body parser gives, empty when the request has none.
\<close>

datatype json =
    JUndefined
  | JNull
  | JBool bool
  | JNum rat
  | JStr string
  | JArr "json list"
  | JObj "(string \<times> json) list"

type_synonym js_object = "(string \<times> json) list"

text \<open>Truthiness, as \<^verbatim>\<open>!x\<close>, \<^verbatim>\<open>x || y\<close> and \<^verbatim>\<open>if (x)\<close> test it.\<close>

fun truthy :: "json \<Rightarrow> bool" where
  "truthy JUndefined = False"
| "truthy JNull = False"
| "truthy (JBool b) = b"
| "truthy (JNum n) = (n \<noteq> 0)"
| "truthy (JStr s) = (s \<noteq> [])"
| "truthy (JArr xs) = True"
| "truthy (JObj kvs) = True"

fun is_string :: "json \<Rightarrow> bool" where
  "is_string (JStr s) = True"
| "is_string v = False"

fun string_of :: "json \<Rightarrow> string" where
  "string_of (JStr s) = s"
| "string_of v = []"

text \<open>\<^verbatim>\<open>obj.key\<close> on an object: the value, or \<open>undefined\<close>.\<close>

definition get_prop :: "js_object \<Rightarrow> string \<Rightarrow> json" where
  "get_prop obj k = (case map_of obj k of None \<Rightarrow> JUndefined | Some v \<Rightarrow> v)"

text \<open>A destructuring default \<^verbatim>\<open>{ k = d }\<close> applies only to \<open>undefined\<close>.\<close>

definition default_to :: "json \<Rightarrow> json \<Rightarrow> json" where
  "default_to d v = (if v = JUndefined then d else v)"

definition js_or :: "json \<Rightarrow> json \<Rightarrow> json" where
  "js_or a b = (if truthy a then a else b)"

text \<open>\<^verbatim>\<open>s || fallback\<close> on a string that may be undefined.\<close>

definition str_or :: "string option \<Rightarrow> string \<Rightarrow> string" where
  "str_or s fallback = (case s of None \<Rightarrow> fallback | Some m \<Rightarrow> if m = [] then fallback else m)"

text \<open>An undefined value inside a template literal prints as \<^verbatim>\<open>undefined\<close>.\<close>

definition template_str :: "string option \<Rightarrow> string" where
  "template_str s = (case s of None \<Rightarrow> ''undefined'' | Some m \<Rightarrow> m)"

text \<open>A natural number inside a template literal prints in decimal.\<close>

definition digit_char :: "nat \<Rightarrow> char" where
  "digit_char d = char_of (48 + d)"

function dec :: "nat \<Rightarrow> string" where
  "dec n = (if n < 10 then [digit_char n] else dec (n div 10) @ [digit_char (n mod 10)])"
  by pat_completeness auto
termination
  by (relation "measure id") auto

declare dec.simps [simp del]

text \<open>\<^verbatim>\<open>xs.join(sep)\<close>\<close>

fun js_join :: "string \<Rightarrow> string list \<Rightarrow> string" where
  "js_join sep [] = []"
| "js_join sep [x] = x"
| "js_join sep (x # y # ys) = x @ sep @ js_join sep (y # ys)"

text \<open>
  What a rejected \<^verbatim>\<open>await\<close> throws. An axios error that carries a response has its
  status, status text and the \<^verbatim>\<open>message\<close> of the response data (absent when the data
  has none); one without a response carries the request only; anything else is a plain
  \<^verbatim>\<open>Error\<close>. The last component is \<^verbatim>\<open>error.message\<close>.
\<close>

datatype js_error =
    Axios_response nat string "string option" string
  | Axios_request string
  | Plain_error string

fun error_message :: "js_error \<Rightarrow> string" where
  "error_message (Axios_response st stt m msg) = msg"
| "error_message (Axios_request msg) = msg"
| "error_message (Plain_error msg) = msg"

text \<open>\<^verbatim>\<open>error.response?.data?.message\<close>\<close>

fun response_data_message :: "js_error \<Rightarrow> string option" where
  "response_data_message (Axios_response st stt m msg) = m"
| "response_data_message e = None"

text \<open>\<^verbatim>\<open>res.status(code).json(obj)\<close>; \<^verbatim>\<open>res.json(obj)\<close> answers with 200.\<close>

record response =
  statusCode :: nat
  payload :: js_object

definition res_json :: "nat \<Rightarrow> js_object \<Rightarrow> response" where
  "res_json code obj = \<lparr>statusCode = code, payload = obj\<rparr>"

text \<open>The process-wide configuration, \<^verbatim>\<open>process.env\<close>.\<close>

record process_env =
  QUETEXT_API_KEY :: "string option"
  NODE_ENV :: "string option"
  BASE_URL :: "string option"
  PAYSTACK_SECRET_KEY :: "string option"

definition env_set :: "string option \<Rightarrow> bool" where
  "env_set v = (case v of None \<Rightarrow> False | Some s \<Rightarrow> s \<noteq> [])"

section \<open>Plagiarism check route\<close>

text \<open>
  The router puts \<^verbatim>\<open>cors()\<close> and the rate limiter in front of its routes. A request
  that the limiter turns away never reaches a route; the model starts where a route is
  entered.
\<close>

definition MIN_TEXT_LENGTH :: nat where
  "MIN_TEXT_LENGTH = 100"

definition MAX_TEXT_LENGTH :: nat where
  "MAX_TEXT_LENGTH = 10000"

definition SUPPORTED_LANGUAGES :: "string list" where
  "SUPPORTED_LANGUAGES = [''en'', ''es'', ''fr'', ''de'']"

text \<open>
  The middleware either answers itself (\<open>Inl\<close>) or calls \<^verbatim>\<open>next()\<close> with
  \<^verbatim>\<open>req.validatedText\<close> and \<^verbatim>\<open>req.language\<close> set (\<open>Inr\<close>).
\<close>

definition validateTextInput :: "js_object \<Rightarrow> response + (string \<times> json)" where
  "validateTextInput req_body =
     (let text = get_prop req_body ''text'';
          language = default_to (JStr ''en'') (get_prop req_body ''language'')
      in if \<not> truthy text \<or> \<not> is_string text then
           Inl (res_json 400
             [(''success'', JBool False),
              (''error'', JStr ''Text is required and must be a string'')])
         else if length (string_of text) < MIN_TEXT_LENGTH then
           Inl (res_json 400
             [(''success'', JBool False),
              (''error'', JStr (''Text must be at least '' @ dec MIN_TEXT_LENGTH
                                  @ '' characters long''))])
         else if length (string_of text) > MAX_TEXT_LENGTH then
           Inl (res_json 400
             [(''success'', JBool False),
              (''error'', JStr (''Text must be less than '' @ dec MAX_TEXT_LENGTH
                                  @ '' characters''))])
         else if language \<notin> set (map JStr SUPPORTED_LANGUAGES) then
           Inl (res_json 400
             [(''success'', JBool False),
              (''error'', JStr (''Unsupported language. Supported languages: ''
                                  @ js_join '', '' SUPPORTED_LANGUAGES))])
         else Inr (take MAX_TEXT_LENGTH (string_of text), language))"

text \<open>The body posted to the provider's \<^verbatim>\<open>/v1/plagiarism\<close>.\<close>

record plagiarism_request =
  pr_text :: string
  pr_language :: json
  pr_scan :: nat

text \<open>
  The provider is a function from the posted body to what the \<^verbatim>\<open>await\<close> gives: the
  response data, or the error thrown. The bearer header and the timeout belong to it.
\<close>

type_synonym quetext = "plagiarism_request \<Rightarrow> js_error + json"

text \<open>
  \<^verbatim>\<open>data.key\<close> on a provider's data throws a \<^verbatim>\<open>TypeError\<close> when the data is null or
  undefined; on any other value it is the property, or \<open>undefined\<close>.
\<close>

definition nullish :: "json \<Rightarrow> bool" where
  "nullish v = (v = JUndefined \<or> v = JNull)"

definition field_of :: "json \<Rightarrow> string \<Rightarrow> json" where
  "field_of v k = (case v of JObj kvs \<Rightarrow> get_prop kvs k | _ \<Rightarrow> JUndefined)"

text \<open>
  The \<^verbatim>\<open>try\<close> block of the handler: the response sent or the error thrown, with the
  provider calls made, in order.
\<close>

definition check_try ::
  "process_env \<Rightarrow> quetext \<Rightarrow> js_object \<Rightarrow> string \<Rightarrow> json
     \<Rightarrow> (js_error + response) \<times> plagiarism_request list" where
  "check_try env provider req_body text language =
     (let detailed = default_to (JBool False) (get_prop req_body ''detailed'')
      in if \<not> env_set (QUETEXT_API_KEY env) then
           (Inl (Plain_error ''Plagiarism check service is not configured''), [])
         else
           let rq = \<lparr>pr_text = text, pr_language = language,
                     pr_scan = (if truthy detailed then 1 else 0)\<rparr>
           in case provider rq of
                Inl e \<Rightarrow> (Inl e, [rq])
              | Inr data \<Rightarrow>
                  if nullish data then
                    (Inl (Plain_error
                       (if data = JNull
                        then ''Cannot read properties of null (reading 'score')''
                        else ''Cannot read properties of undefined (reading 'score')'')),
                     [rq])
                  else
                    let result =
                          [(''success'', JBool True),
                           (''score'', field_of data ''score''),
                           (''plagiarism'', field_of data ''plagiarism''),
                           (''warnings'', js_or (field_of data ''warnings'') (JArr [])),
                           (''language'', language)];
                        result' =
                          (if truthy detailed then
                             result @ [(''matches'', js_or (field_of data ''matches'') (JArr []))]
                           else result)
                    in (Inr (res_json 200 result'), [rq]))"

text \<open>The \<^verbatim>\<open>catch\<close> block.\<close>

definition check_catch :: "process_env \<Rightarrow> js_error \<Rightarrow> response" where
  "check_catch env error =
     (let (code, errorMessage) =
            (case error of
               Axios_response st stt m msg \<Rightarrow> (st, str_or m (''API error: '' @ stt))
             | Axios_request msg \<Rightarrow> (500, ''No response from plagiarism service'')
             | Plain_error msg \<Rightarrow> (500, ''Plagiarism check failed''))
      in res_json code
           [(''success'', JBool False),
            (''error'', JStr errorMessage),
            (''details'', if NODE_ENV env = Some ''development''
                          then JStr (error_message error) else JUndefined)])"

text \<open>\<^verbatim>\<open>router.post('/check', validateTextInput, handler)\<close>\<close>

definition check_route ::
  "process_env \<Rightarrow> quetext \<Rightarrow> js_object \<Rightarrow> response \<times> plagiarism_request list" where
  "check_route env provider req_body =
     (case validateTextInput req_body of
        Inl r \<Rightarrow> (r, [])
      | Inr (text, language) \<Rightarrow>
          (case check_try env provider req_body text language of
             (Inl e, calls) \<Rightarrow> (check_catch env e, calls)
           | (Inr r, calls) \<Rightarrow> (r, calls)))"

section \<open>Payment routes\<close>

definition ACCESS_BANK_ACCOUNT :: string where
  "ACCESS_BANK_ACCOUNT = ''0818022720''"

definition BANK_CODE :: string where
  "BANK_CODE = ''044''"

definition TRANSACTION_FEE_PERCENTAGE :: rat where
  "TRANSACTION_FEE_PERCENTAGE = 1.5"

subsection \<open>The project record and the document store\<close>

record payment_details =
  pd_amount :: rat
  pd_paidAt :: string
  pd_bank :: string
  pd_transferTo :: string

text \<open>
  A project document, its fields typed as the routes use them; a field that the document
  does not have is \<open>None\<close>. The same
  record serves as the field map handed to \<^verbatim>\<open>update\<close>, where \<open>None\<close> is a field
  that the call does not mention.
\<close>

record project =
  price :: "rat option"
  authorEmail :: "string option"
  authorId :: "string option"
  title :: "string option"
  paymentStatus :: "string option"
  paymentReference :: "string option"
  transactionFee :: "rat option"
  totalAmount :: "rat option"
  bankAccount :: "string option"
  updatedAt :: "nat option"
  status :: "string option"
  approvedAt :: "nat option"
  transactionReference :: "string option"
  paymentDetails :: "payment_details option"

definition no_fields :: project where
  "no_fields =
     \<lparr>price = None, authorEmail = None, authorId = None, title = None,
      paymentStatus = None, paymentReference = None, transactionFee = None,
      totalAmount = None, bankAccount = None, updatedAt = None, status = None,
      approvedAt = None, transactionReference = None, paymentDetails = None\<rparr>"

definition orelse :: "'a option \<Rightarrow> 'a option \<Rightarrow> 'a option" where
  "orelse new old = (case new of None \<Rightarrow> old | Some v \<Rightarrow> Some v)"

definition merge_fields :: "project \<Rightarrow> project \<Rightarrow> project" where
  "merge_fields patch old =
     \<lparr>price = orelse (price patch) (price old),
      authorEmail = orelse (authorEmail patch) (authorEmail old),
      authorId = orelse (authorId patch) (authorId old),
      title = orelse (title patch) (title old),
      paymentStatus = orelse (paymentStatus patch) (paymentStatus old),
      paymentReference = orelse (paymentReference patch) (paymentReference old),
      transactionFee = orelse (transactionFee patch) (transactionFee old),
      totalAmount = orelse (totalAmount patch) (totalAmount old),
      bankAccount = orelse (bankAccount patch) (bankAccount old),
      updatedAt = orelse (updatedAt patch) (updatedAt old),
      status = orelse (status patch) (status old),
      approvedAt = orelse (approvedAt patch) (approvedAt old),
      transactionReference = orelse (transactionReference patch) (transactionReference old),
      paymentDetails = orelse (paymentDetails patch) (paymentDetails old)\<rparr>"

text \<open>
  Modelled from the spec: the document store \<^verbatim>\<open>db\<close> that \<^verbatim>\<open>./firebase\<close> exports is not
  among the sources. It is a store of documents keyed by project id, read whole and
  partially updated: \<^verbatim>\<open>doc(id).get()\<close> finds the document or reports that it does not
  exist, \<^verbatim>\<open>doc(id).update(fields)\<close> overwrites the fields given and keeps the others,
  and is rejected when there is no document to update.
\<close>

type_synonym store = "string \<rightharpoonup> project"

definition doc_update :: "store \<Rightarrow> string \<Rightarrow> project \<Rightarrow> js_error + store" where
  "doc_update db projectId patch =
     (case db projectId of
        None \<Rightarrow> Inl (Plain_error ''No document to update'')
      | Some old \<Rightarrow> Inr (db(projectId \<mapsto> merge_fields patch old)))"

subsection \<open>The payment provider\<close>

record initialize_metadata =
  md_projectId :: string
  md_authorId :: "string option"
  md_accessBankAccount :: string
  md_transactionFee :: rat
  md_custom_fields :: "(string \<times> string \<times> string option) list"

record initialize_request =
  ir_email :: string
  ir_amount :: int
  ir_reference :: string
  ir_callback_url :: string
  ir_metadata :: initialize_metadata

text \<open>\<^verbatim>\<open>paystackResponse.data.data\<close>\<close>

record initialize_data =
  id_reference :: string
  id_authorization_url :: string

text \<open>\<^verbatim>\<open>verificationResponse.data.data\<close>; \<open>tx_bank\<close> is \<^verbatim>\<open>authorization.bank\<close>.\<close>

record transaction =
  tx_status :: string
  tx_amount :: rat
  tx_reference :: string
  tx_paid_at :: string
  tx_bank :: string

record recipient_request =
  rr_type :: string
  rr_name :: string
  rr_account_number :: string
  rr_bank_code :: string
  rr_currency :: string

record transfer_request =
  tr_source :: string
  tr_amount :: rat
  tr_recipient :: string
  tr_reason :: string

text \<open>
  The four endpoints, each a function from what is sent to what the \<^verbatim>\<open>await\<close> gives.
  The verify endpoint takes the reference that is put into its URL; the recipient
  endpoint gives \<^verbatim>\<open>data.data.recipient_code\<close>.
\<close>

record paystack =
  initialize :: "initialize_request \<Rightarrow> js_error + initialize_data"
  verify :: "json \<Rightarrow> js_error + transaction"
  transferrecipient :: "recipient_request \<Rightarrow> js_error + string"
  transfer :: "transfer_request \<Rightarrow> js_error + unit"

text \<open>What a request does besides answering, in the order it does it.\<close>

datatype effect =
    Db_get string
  | Db_update string project
  | Paystack_initialize initialize_request
  | Paystack_verify json
  | Paystack_transferrecipient recipient_request
  | Paystack_transfer transfer_request

fun is_provider_call :: "effect \<Rightarrow> bool" where
  "is_provider_call (Db_get projectId) = False"
| "is_provider_call (Db_update projectId patch) = False"
| "is_provider_call e = True"





text \<open>\<^verbatim>\<open>Math.round\<close>: the nearest integer, a half going up.\<close>

definition js_round :: "rat \<Rightarrow> int" where
  "js_round x = \<lfloor>x + 1 / 2\<rfloor>"

text \<open>The \<^verbatim>\<open>catch\<close> block of both payment routes, with the route's own fallback.\<close>

definition payment_catch :: "string \<Rightarrow> js_error \<Rightarrow> response" where
  "payment_catch fallback error =
     res_json 500
       [(''success'', JBool False),
        (''error'', JStr (str_or (response_data_message error) fallback))]"

subsection \<open>Initiation\<close>

text \<open>
  \<open>now\<close> is \<^verbatim>\<open>Date.now()\<close> and \<open>stamp\<close> the time the store puts for
  \<^verbatim>\<open>serverTimestamp()\<close>.
\<close>

definition initialize_request_of ::
  "process_env \<Rightarrow> nat \<Rightarrow> string \<Rightarrow> project \<Rightarrow> rat \<Rightarrow> rat \<Rightarrow> initialize_request" where
  "initialize_request_of env now projectId project fee totalAmt =
     \<lparr>ir_email = str_or (authorEmail project) ''user@example.com'',
      ir_amount = js_round (totalAmt * 100),
      ir_reference = ''RESEARCHX-'' @ projectId @ ''-'' @ dec now,
      ir_callback_url = template_str (BASE_URL env) @ ''/payment/verify/'' @ projectId,
      ir_metadata =
        \<lparr>md_projectId = projectId,
         md_authorId = authorId project,
         md_accessBankAccount = ACCESS_BANK_ACCOUNT,
         md_transactionFee = fee,
         md_custom_fields =
           [(''Project Title'', ''project_title'', title project),
            (''Bank Account'', ''bank_account'', Some ACCESS_BANK_ACCOUNT)]\<rparr>\<rparr>"

definition error_response :: "nat \<Rightarrow> string \<Rightarrow> response" where
  "error_response code msg =
     res_json code [(''success'', JBool False), (''error'', JStr msg)]"

text \<open>The field map of the \<^verbatim>\<open>update\<close> that saves the payment reference.\<close>

definition initiated_fields :: "initialize_data \<Rightarrow> rat \<Rightarrow> rat \<Rightarrow> nat \<Rightarrow> project" where
  "initiated_fields d fee totalAmt stamp =
     no_fields
       \<lparr>paymentReference := Some (id_reference d),
        paymentStatus := Some ''initiated'',
        transactionFee := Some fee,
        totalAmount := Some totalAmt,
        bankAccount := Some ACCESS_BANK_ACCOUNT,
        updatedAt := Some stamp\<rparr>"

definition initiated_response :: "initialize_data \<Rightarrow> rat \<Rightarrow> rat \<Rightarrow> response" where
  "initiated_response d fee totalAmt =
     res_json 200
       [(''success'', JBool True),
        (''authorizationUrl'', JStr (id_authorization_url d)),
        (''bankAccount'', JStr ACCESS_BANK_ACCOUNT),
        (''accountName'', JStr ''ResearchX Platform''),
        (''bankName'', JStr ''Access Bank''),
        (''amount'', JNum totalAmt),
        (''transactionFee'', JNum fee)]"

text \<open>
  The \<^verbatim>\<open>try\<close> block: the response sent or the error thrown, the effects in order,
  and the store afterwards.
\<close>

definition initiate_try ::
  "process_env \<Rightarrow> paystack \<Rightarrow> nat \<Rightarrow> nat \<Rightarrow> store \<Rightarrow> string
     \<Rightarrow> (js_error + response) \<times> effect list \<times> store" where
  "initiate_try env ps now stamp db projectId =
     (if projectId = [] then
        (Inr (error_response 400 ''Invalid project ID''), [], db)
      else
        (case db projectId of
           None \<Rightarrow> (Inr (error_response 404 ''Project not found''), [Db_get projectId], db)
         | Some project \<Rightarrow>
            (case price project of
               None \<Rightarrow>
                 (Inr (error_response 400 ''Invalid project price''), [Db_get projectId], db)
             | Some p \<Rightarrow>
                (if (p = 0) \<or> (p \<le> 0) then
                   (Inr (error_response 400 ''Invalid project price''), [Db_get projectId], db)
                 else
                  (let fee = p * (TRANSACTION_FEE_PERCENTAGE / 100);
                       totalAmt = p + fee;
                       rq = initialize_request_of env now projectId project fee totalAmt
                   in (case initialize ps rq of
                         Inl e \<Rightarrow> (Inl e, [Db_get projectId, Paystack_initialize rq], db)
                       | Inr d \<Rightarrow>
                          (let patch = initiated_fields d fee totalAmt stamp;
                               trace = [Db_get projectId, Paystack_initialize rq,
                                        Db_update projectId patch]
                           in (case doc_update db projectId patch of
                                 Inl e \<Rightarrow> (Inl e, trace, db)
                               | Inr db' \<Rightarrow>
                                   (Inr (initiated_response d fee totalAmt), trace, db')))))))))"

definition initiate_route ::
  "process_env \<Rightarrow> paystack \<Rightarrow> nat \<Rightarrow> nat \<Rightarrow> store \<Rightarrow> string
     \<Rightarrow> response \<times> effect list \<times> store" where
  "initiate_route env ps now stamp db projectId =
     (case initiate_try env ps now stamp db projectId of
        (Inl e, trace, db') \<Rightarrow> (payment_catch ''Payment initialization failed'' e, trace, db')
      | (Inr r, trace, db') \<Rightarrow> (r, trace, db'))"

subsection \<open>Verification\<close>

definition platform_recipient :: recipient_request where
  "platform_recipient =
     \<lparr>rr_type = ''nuban'',
      rr_name = ''ResearchX Platform'',
      rr_account_number = ACCESS_BANK_ACCOUNT,
      rr_bank_code = BANK_CODE,
      rr_currency = ''NGN''\<rparr>"

definition transfer_request_of :: "transaction \<Rightarrow> string \<Rightarrow> string \<Rightarrow> transfer_request" where
  "transfer_request_of transactionData recipientCode projectId =
     \<lparr>tr_source = ''balance'',
      tr_amount = tx_amount transactionData - (tx_amount transactionData * 0.015),
      tr_recipient = recipientCode,
      tr_reason = ''Payment for project '' @ projectId\<rparr>"

definition completed_fields :: "transaction \<Rightarrow> nat \<Rightarrow> project" where
  "completed_fields transactionData stamp =
     no_fields
       \<lparr>paymentStatus := Some ''completed'',
        status := Some ''approved'',
        approvedAt := Some stamp,
        transactionReference := Some (tx_reference transactionData),
        paymentDetails := Some
          \<lparr>pd_amount = tx_amount transactionData / 100,
           pd_paidAt = tx_paid_at transactionData,
           pd_bank = tx_bank transactionData,
           pd_transferTo = ACCESS_BANK_ACCOUNT\<rparr>\<rparr>"

definition failed_fields :: "nat \<Rightarrow> project" where
  "failed_fields stamp =
     no_fields \<lparr>paymentStatus := Some ''failed'', updatedAt := Some stamp\<rparr>"

definition verified_response :: "transaction \<Rightarrow> response" where
  "verified_response transactionData =
     res_json 200
       [(''success'', JBool True),
        (''message'', JStr ''Payment verified and funds transferred to Access Bank''),
        (''bankAccount'', JStr ACCESS_BANK_ACCOUNT),
        (''amount'', JNum (tx_amount transactionData / 100))]"

definition verify_try ::
  "paystack \<Rightarrow> nat \<Rightarrow> store \<Rightarrow> string \<Rightarrow> js_object
     \<Rightarrow> (js_error + response) \<times> effect list \<times> store" where
  "verify_try ps stamp db projectId req_body =
     (let reference = get_prop req_body ''reference''
      in if (\<not> truthy reference) \<or> (projectId = []) then
           (Inr (error_response 400 ''Missing reference or project ID''), [], db)
         else
           (case verify ps reference of
              Inl e \<Rightarrow> (Inl e, [Paystack_verify reference], db)
            | Inr transactionData \<Rightarrow>
               (if tx_status transactionData = ''success'' then
                  (case transferrecipient ps platform_recipient of
                     Inl e \<Rightarrow>
                       (Inl e,
                        [Paystack_verify reference,
                         Paystack_transferrecipient platform_recipient], db)
                   | Inr recipientCode \<Rightarrow>
                      (let tq = transfer_request_of transactionData recipientCode projectId
                       in (case transfer ps tq of
                             Inl e \<Rightarrow>
                               (Inl e,
                                [Paystack_verify reference,
                                 Paystack_transferrecipient platform_recipient,
                                 Paystack_transfer tq], db)
                           | Inr u \<Rightarrow>
                              (let patch = completed_fields transactionData stamp;
                                   trace = [Paystack_verify reference,
                                            Paystack_transferrecipient platform_recipient,
                                            Paystack_transfer tq,
                                            Db_update projectId patch]
                               in (case doc_update db projectId patch of
                                     Inl e \<Rightarrow> (Inl e, trace, db)
                                   | Inr db' \<Rightarrow>
                                       (Inr (verified_response transactionData), trace, db'))))))
                else
                  (let patch = failed_fields stamp;
                       trace = [Paystack_verify reference, Db_update projectId patch]
                   in (case doc_update db projectId patch of
                         Inl e \<Rightarrow> (Inl e, trace, db)
                       | Inr db' \<Rightarrow>
                           (Inr (error_response 400 ''Payment not successful''), trace, db'))))))"

definition verify_route ::
  "paystack \<Rightarrow> nat \<Rightarrow> store \<Rightarrow> string \<Rightarrow> js_object
     \<Rightarrow> response \<times> effect list \<times> store" where
  "verify_route ps stamp db projectId req_body =
     (case verify_try ps stamp db projectId req_body of
        (Inl e, trace, db') \<Rightarrow> (payment_catch ''Payment verification failed'' e, trace, db')
      | (Inr r, trace, db') \<Rightarrow> (r, trace, db'))"

section \<open>Signup handler\<close>




section \<open>Response envelopes\<close>



section \<open>Sample requests and providers\<close>

text \<open>Concrete inputs on which the theorems below are run.\<close>

definition long_text :: string where
  "long_text = replicate 100 CHR ''a''"

definition fixed_env :: process_env where
  "fixed_env =
     \<lparr>QUETEXT_API_KEY = Some ''key'', NODE_ENV = None,
      BASE_URL = Some ''https://researchx.example'', PAYSTACK_SECRET_KEY = Some ''sk''\<rparr>"

definition empty_report :: quetext where
  "empty_report = (\<lambda>rq. Inr (JObj []))"

definition sample_project :: project where
  "sample_project = no_fields \<lparr>price := Some 1000, title := Some ''Thesis''\<rparr>"

definition sample_store :: store where
  "sample_store = [''p1'' \<mapsto> sample_project]"

definition sample_transaction :: "string \<Rightarrow> transaction" where
  "sample_transaction st =
     \<lparr>tx_status = st, tx_amount = 101500, tx_reference = ''RESEARCHX-p1-7'',
      tx_paid_at = ''2024-01-01T00:00:00.000Z'', tx_bank = ''Access Bank''\<rparr>"

text \<open>
  A provider whose verify endpoint reports the status given and whose other endpoints
  resolve.
\<close>

definition sample_paystack :: "string \<Rightarrow> paystack" where
  "sample_paystack st =
     \<lparr>initialize = (\<lambda>rq. Inr \<lparr>id_reference = ir_reference rq,
                                 id_authorization_url = ''https://checkout.example/x''\<rparr>),
      verify = (\<lambda>reference. Inr (sample_transaction st)),
      transferrecipient = (\<lambda>rq. Inr ''RCP_1''),
      transfer = (\<lambda>rq. Inr ())\<rparr>"



section \<open>Properties of the plagiarism check route\<close>

lemma validate_rejects:
  "validateTextInput req_body = Inl r \<Longrightarrow>
     statusCode r = 400 \<and> get_prop (payload r) ''success'' = JBool False"
  by (auto simp: validateTextInput_def Let_def res_json_def get_prop_def split: if_splits)

lemma validate_accepts:
  "validateTextInput req_body = Inr (t, l) \<Longrightarrow>
     get_prop req_body ''text'' = JStr t \<and> MIN_TEXT_LENGTH \<le> length t
     \<and> length t \<le> MAX_TEXT_LENGTH
     \<and> l = default_to (JStr ''en'') (get_prop req_body ''language'')
     \<and> l \<in> set (map JStr SUPPORTED_LANGUAGES)"
  apply (cases "get_prop req_body ''text''")
  apply (auto simp: validateTextInput_def Let_def split: if_splits)
  done

lemma validate_long_text:
  "validateTextInput ((''text'', JStr long_text) # others) =
     (if default_to (JStr ''en'') (get_prop ((''text'', JStr long_text) # others) ''language'')
           \<in> set (map JStr SUPPORTED_LANGUAGES)
      then Inr (long_text,
                default_to (JStr ''en'') (get_prop ((''text'', JStr long_text) # others) ''language''))
      else Inl (res_json 400
             [(''success'', JBool False),
              (''error'', JStr (''Unsupported language. Supported languages: ''
                                  @ js_join '', '' SUPPORTED_LANGUAGES))]))"
  by (simp add: validateTextInput_def get_prop_def Let_def long_text_def
      MIN_TEXT_LENGTH_def MAX_TEXT_LENGTH_def)

lemma truthy_default_False: "truthy (default_to (JBool False) v) = truthy v"
  by (simp add: default_to_def)

lemma check_try_calls:
  "snd (check_try env provider req_body t l) =
     (if env_set (QUETEXT_API_KEY env)
      then [\<lparr>pr_text = t, pr_language = l,
              pr_scan = (if truthy (get_prop req_body ''detailed'') then 1 else 0)\<rparr>]
      else [])"
  by (auto simp: check_try_def Let_def truthy_default_False split: sum.splits)

lemma check_route_calls:
  "validateTextInput req_body = Inr (t, l) \<Longrightarrow>
     snd (check_route env provider req_body) = snd (check_try env provider req_body t l)"
  by (cases "check_try env provider req_body t l")
     (auto simp: check_route_def split: sum.splits)

text \<open>
  C6: a check request whose text is missing, not a string, shorter than 100 or longer
  than 10000 characters, or whose language (\<^verbatim>\<open>en\<close> when the body gives none) is not
  one of \<^verbatim>\<open>en\<close>, \<^verbatim>\<open>es\<close>, \<^verbatim>\<open>fr\<close>, \<^verbatim>\<open>de\<close>, is answered with 400 and
  \<^verbatim>\<open>success: false\<close>, and the provider is not called.
\<close>

theorem check_rejects_invalid_input:
  assumes "\<not> is_string (get_prop req_body ''text'')
           \<or> length (string_of (get_prop req_body ''text'')) < MIN_TEXT_LENGTH
           \<or> length (string_of (get_prop req_body ''text'')) > MAX_TEXT_LENGTH
           \<or> default_to (JStr ''en'') (get_prop req_body ''language'')
                \<notin> set (map JStr SUPPORTED_LANGUAGES)"
  shows "statusCode (fst (check_route env provider req_body)) = 400
         \<and> get_prop (payload (fst (check_route env provider req_body))) ''success'' = JBool False
         \<and> snd (check_route env provider req_body) = []"
proof -
  have "\<exists>r. validateTextInput req_body = Inl r"
    using assms by (auto simp: validateTextInput_def Let_def)
  then obtain r where r: "validateTextInput req_body = Inl r" ..
  from validate_rejects [OF r] r show ?thesis
    by (simp add: check_route_def)
qed

text \<open>A text of nine characters, and a text long enough in a language that is not supported.\<close>

theorem check_rejects_invalid_input_witness:
  "(statusCode (fst (check_route fixed_env empty_report [(''text'', JStr ''too short'')])) = 400
    \<and> get_prop (payload (fst (check_route fixed_env empty_report
                                 [(''text'', JStr ''too short'')]))) ''success'' = JBool False
    \<and> snd (check_route fixed_env empty_report [(''text'', JStr ''too short'')]) = [])
   \<and> (statusCode (fst (check_route fixed_env empty_report
                          [(''text'', JStr long_text), (''language'', JStr ''it'')])) = 400
    \<and> snd (check_route fixed_env empty_report
              [(''text'', JStr long_text), (''language'', JStr ''it'')]) = [])"
  using check_rejects_invalid_input [where req_body = "[(''text'', JStr ''too short'')]"
          and env = fixed_env and provider = empty_report]
        check_rejects_invalid_input
          [where req_body = "[(''text'', JStr long_text), (''language'', JStr ''it'')]"
          and env = fixed_env and provider = empty_report]
  by (simp add: get_prop_def default_to_def MIN_TEXT_LENGTH_def SUPPORTED_LANGUAGES_def)

text \<open>
  C9: when a check request passes validation, the text it submitted is the validated
  text, and the text sent to the provider (the one call made when the provider's key is
  configured) is that same text: the truncation to 10000 characters changes nothing.
\<close>

theorem check_forwards_submitted_text:
  assumes "validateTextInput req_body = Inr (t, l)"
  shows "get_prop req_body ''text'' = JStr t
         \<and> snd (check_route env provider req_body) =
             (if env_set (QUETEXT_API_KEY env)
              then [\<lparr>pr_text = t, pr_language = l,
                      pr_scan = (if truthy (get_prop req_body ''detailed'') then 1 else 0)\<rparr>]
              else [])"
  using validate_accepts [OF assms] check_route_calls [OF assms] check_try_calls
  by simp

text \<open>A text of exactly 100 characters is forwarded as it is.\<close>

theorem check_forwards_submitted_text_witness:
  "snd (check_route fixed_env empty_report [(''text'', JStr long_text)]) =
     [\<lparr>pr_text = long_text, pr_language = JStr ''en'', pr_scan = 0\<rparr>]"
proof -
  have ok: "validateTextInput [(''text'', JStr long_text)] = Inr (long_text, JStr ''en'')"
    by (simp add: validate_long_text get_prop_def default_to_def SUPPORTED_LANGUAGES_def)
  from check_forwards_submitted_text [OF ok, of fixed_env empty_report] show ?thesis
    by (simp add: fixed_env_def env_set_def get_prop_def)
qed




section \<open>Properties of the payment initiation route\<close>

text \<open>
  C5: an initiate request for a stored project whose price is missing, zero or negative
  is answered with 400 and \<^verbatim>\<open>success: false\<close>; the provider is not called and the
  store is left as it was.
\<close>

theorem initiate_invalid_price:
  assumes "db projectId = Some project"
      and "price project = None \<or> (\<exists>p. price project = Some p \<and> p \<le> 0)"
  shows "case initiate_route env ps now stamp db projectId of
           (r, trace, db') \<Rightarrow>
             statusCode r = 400 \<and> get_prop (payload r) ''success'' = JBool False
             \<and> filter is_provider_call trace = [] \<and> db' = db"
  using assms
  by (auto simp: initiate_route_def initiate_try_def error_response_def res_json_def get_prop_def)

text \<open>A project priced at zero, and one with a negative price.\<close>

theorem initiate_invalid_price_witness:
  "(case initiate_route fixed_env (sample_paystack ''success'') 7 9
           [''p1'' \<mapsto> no_fields \<lparr>price := Some 0\<rparr>] ''p1'' of
      (r, trace, db') \<Rightarrow>
         statusCode r = 400 \<and> get_prop (payload r) ''success'' = JBool False
         \<and> filter is_provider_call trace = []
         \<and> db' = [''p1'' \<mapsto> no_fields \<lparr>price := Some 0\<rparr>])
   \<and> (case initiate_route fixed_env (sample_paystack ''success'') 7 9
           [''p1'' \<mapsto> no_fields \<lparr>price := Some (- 5)\<rparr>] ''p1'' of
      (r, trace, db') \<Rightarrow>
         statusCode r = 400 \<and> get_prop (payload r) ''success'' = JBool False
         \<and> filter is_provider_call trace = []
         \<and> db' = [''p1'' \<mapsto> no_fields \<lparr>price := Some (- 5)\<rparr>])"
  using initiate_invalid_price [where db = "[''p1'' \<mapsto> no_fields \<lparr>price := Some 0\<rparr>]"
          and projectId = "''p1''" and project = "no_fields \<lparr>price := Some 0\<rparr>"
          and env = fixed_env and ps = "sample_paystack ''success''" and now = 7 and stamp = 9]
        initiate_invalid_price [where db = "[''p1'' \<mapsto> no_fields \<lparr>price := Some (- 5)\<rparr>]"
          and projectId = "''p1''" and project = "no_fields \<lparr>price := Some (- 5)\<rparr>"
          and env = fixed_env and ps = "sample_paystack ''success''" and now = 7 and stamp = 9]
  by (simp add: no_fields_def)



section \<open>Properties of the payment verification route\<close>

lemma verify_route_missing:
  "\<not> truthy (get_prop req_body ''reference'') \<or> projectId = [] \<Longrightarrow>
     verify_route ps stamp db projectId req_body =
       (error_response 400 ''Missing reference or project ID'', [], db)"
  by (auto simp: verify_route_def verify_try_def Let_def)

text \<open>
  C10: a verification request whose body has no reference (or a falsy one), or whose
  path has no project id, is answered with 400 and \<^verbatim>\<open>success: false\<close>; nothing is
  called and the store is left as it was.
\<close>

theorem verify_missing_reference:
  assumes "\<not> truthy (get_prop req_body ''reference'') \<or> projectId = []"
  shows "case verify_route ps stamp db projectId req_body of
           (r, trace, db') \<Rightarrow>
             statusCode r = 400 \<and> get_prop (payload r) ''success'' = JBool False
             \<and> trace = [] \<and> db' = db"
  using verify_route_missing [OF assms]
  by (simp add: error_response_def res_json_def get_prop_def)

text \<open>A request with an empty body.\<close>

theorem verify_missing_reference_witness:
  "case verify_route (sample_paystack ''success'') 9 sample_store ''p1'' [] of
     (r, trace, db') \<Rightarrow>
        statusCode r = 400 \<and> get_prop (payload r) ''success'' = JBool False
        \<and> trace = [] \<and> db' = sample_store"
  using verify_missing_reference [where req_body = "[]" and projectId = "''p1''"
      and ps = "sample_paystack ''success''" and stamp = 9 and db = sample_store]
  by (simp add: get_prop_def)









section \<open>The error envelope\<close>















end
